theory Spec2Isabelle
  imports Complex_Main
begin

section \<open>The booking calendar: data model\<close>

text \<open>
  The repository holds several evolutions of one class, \<open>UnifiedCalendarManager\<close>
  (\<open>calendar.js\<close>, \<open>new_calendar.js\<close>, \<open>v5.js\<close>). Its fields \<open>calendarData\<close>,
  \<open>tempSelection\<close> and \<open>currentMonthKey\<close> are kept here in one flat record. What the
  methods read from the page (the cost input, the displayed month and year, the day of the
  clicked cell) is passed to them as arguments.

  A month key \<open>"YYYY-MM"\<close> is held as the pair (year, month) that \<open>split('-')\<close> and
  \<open>parseInt\<close> recover from it. The two-digit month code of \<open>MONTH_MAP\<close> (\<open>'01'\<close> to
  \<open>'12'\<close>) is held as its number.
\<close>

type_synonym monthKey = "int \<times> int"

record fullDate =
  day_of :: int
  month_of :: int
  year_of :: int
  timestamp :: int

record dateRange =
  range_start :: fullDate
  range_end :: fullDate

text \<open>An element of a \<open>blockedDates\<close> list: a bare string (legacy) or \<open>{date, price}\<close>.\<close>

datatype blockedItem = BareDate string | DatePrice string int

record priceItem =
  item_date :: string
  item_price :: int

record monthData =
  prices :: "priceItem list"
  defaultCost :: int

record manager =
  dateRanges :: "dateRange list"
  excludedDates :: "int set"
  dateDiscounts :: "int \<rightharpoonup> int"
  blockedDates :: "monthKey \<rightharpoonup> blockedItem list"
  basePrices :: "monthKey \<rightharpoonup> monthData"
  globalDefaultCost :: int
  startDay :: "int option"
  startMonth :: "string option"
  startYear :: "int option"
  isRangeConfirmed :: bool
  currentMonthKey :: monthKey

section \<open>Strings and dates of the platform\<close>

text \<open>\<open>String(n)\<close> for an integer, and \<open>padStart(2, '0')\<close>.\<close>

definition digit_char :: "int \<Rightarrow> char" where
  "digit_char n = ''0123456789'' ! nat n"

function showInt :: "int \<Rightarrow> string" where
  "showInt n = (if n < 0 then CHR ''-'' # showInt (- n)
                else if n < 10 then [digit_char n]
                else showInt (n div 10) @ [digit_char (n mod 10)])"
  by pat_completeness auto
termination
  by (relation "measure (\<lambda>n. if n < 0 then nat (1 - n) else nat n)") auto

declare showInt.simps [simp del]

definition padStart2 :: "string \<Rightarrow> string" where
  "padStart2 s = (if length s < 2 then replicate (2 - length s) CHR ''0'' @ s else s)"

text \<open>\<open>formatDate(day, month, year)\<close>: \<open>"DD.MM.YYYY"\<close>, or the empty string when an
  argument is falsy.\<close>

definition formatDate :: "int \<Rightarrow> int \<Rightarrow> int \<Rightarrow> string" where
  "formatDate d m y =
     (if d = 0 \<or> m = 0 \<or> y = 0 then ''''
      else padStart2 (showInt d) @ ''.'' @ padStart2 (showInt m) @ ''.'' @ showInt y)"

definition MONTH_MAP :: "string \<Rightarrow> int option" where
  "MONTH_MAP name = map_of
     [(''January'', 1), (''February'', 2), (''March'', 3), (''April'', 4),
      (''May'', 5), (''June'', 6), (''July'', 7), (''August'', 8),
      (''September'', 9), (''October'', 10), (''November'', 11), (''December'', 12)] name"

text \<open>
  The platform's \<open>Date\<close>, for a local zone without offset and without daylight saving:
  a date value is its \<open>getTime()\<close>, in milliseconds. \<open>days_from_civil\<close> counts the days
  from 1 January 1970 to a date of the proleptic Gregorian calendar, \<open>civil_from_days\<close>
  is its inverse.
\<close>

definition msPerDay :: int where
  "msPerDay = 86400000"

definition days_from_civil :: "int \<Rightarrow> int \<Rightarrow> int \<Rightarrow> int" where
  "days_from_civil y m d =
     (let y1 = (if m \<le> 2 then y - 1 else y);
          era = y1 div 400;
          yoe = y1 - era * 400;
          doy = (153 * (if m > 2 then m - 3 else m + 9) + 2) div 5 + d - 1;
          doe = yoe * 365 + yoe div 4 - yoe div 100 + doy
      in era * 146097 + doe - 719468)"

definition civil_from_days :: "int \<Rightarrow> int \<times> int \<times> int" where
  "civil_from_days z =
     (let z1 = z + 719468;
          era = z1 div 146097;
          doe = z1 - era * 146097;
          yoe = (doe - doe div 1460 + doe div 36524 - doe div 146096) div 365;
          doy = doe - (365 * yoe + yoe div 4 - yoe div 100);
          mp = (5 * doy + 2) div 153;
          d = doy - (153 * mp + 2) div 5 + 1;
          m = (if mp < 10 then mp + 3 else mp - 9);
          y = yoe + era * 400
      in (if m \<le> 2 then y + 1 else y, m, d))"

text \<open>\<open>new Date(year, monthIndex, day).getTime()\<close>: the month index counts from 0 and may
  run over (index 12 is January of the next year), the day may be 0 (the last day of the
  month before); a year from 0 to 99 means 1900 + year.\<close>

definition newDate :: "int \<Rightarrow> int \<Rightarrow> int \<Rightarrow> int" where
  "newDate y mi d =
     (let yr = (if 0 \<le> y \<and> y \<le> 99 then 1900 + y else y);
          ym = yr + mi div 12;
          mn = mi mod 12
      in (days_from_civil ym (mn + 1) 1 + d - 1) * msPerDay)"

definition getFullYear :: "int \<Rightarrow> int" where
  "getFullYear t = fst (civil_from_days (t div msPerDay))"

definition getMonth :: "int \<Rightarrow> int" where
  "getMonth t = fst (snd (civil_from_days (t div msPerDay))) - 1"

definition getDate :: "int \<Rightarrow> int" where
  "getDate t = snd (snd (civil_from_days (t div msPerDay)))"

text \<open>\<open>getDay()\<close>: 0 is Sunday, 6 is Saturday; 1 January 1970 was a Thursday.\<close>

definition getDay :: "int \<Rightarrow> int" where
  "getDay t = (t div msPerDay + 4) mod 7"

text \<open>\<open>new Date(year, month, 0).getDate()\<close>, with the month of the key (1 to 12).\<close>

definition daysInMonth :: "int \<Rightarrow> int \<Rightarrow> int" where
  "daysInMonth y m = getDate (newDate y m 0)"

text \<open>\<open>createFullDate(day, monthName, year)\<close>: \<open>null\<close> for an unknown month name.\<close>

definition createFullDate :: "int \<Rightarrow> string \<Rightarrow> int \<Rightarrow> fullDate option" where
  "createFullDate d monthName y =
     (case MONTH_MAP monthName of
        None \<Rightarrow> None
      | Some monthNum \<Rightarrow>
          Some \<lparr>day_of = d, month_of = monthNum, year_of = y,
                timestamp = newDate y (monthNum - 1) d\<rparr>)"

section \<open>Queries of the pricing state\<close>

text \<open>\<open>getBasePrice()\<close>: the argument is \<open>parseInt\<close> of the cost input, \<open>None\<close> when the
  input is missing or does not parse.\<close>

definition getBasePrice :: "manager \<Rightarrow> int option \<Rightarrow> int" where
  "getBasePrice st costInput =
     (case costInput of
        None \<Rightarrow> globalDefaultCost st
      | Some v \<Rightarrow> if v \<le> 0 then globalDefaultCost st else v)"

text \<open>\<open>isDateInRanges(fullDate)\<close>: \<open>false\<close> for \<open>null\<close> and for a falsy timestamp.\<close>

definition isDateInRanges :: "manager \<Rightarrow> fullDate option \<Rightarrow> bool" where
  "isDateInRanges st fullDate =
     (case fullDate of
        None \<Rightarrow> False
      | Some fd \<Rightarrow>
          if timestamp fd = 0 then False
          else list_ex (\<lambda>r. timestamp fd \<ge> timestamp (range_start r) \<and>
                            timestamp fd \<le> timestamp (range_end r)) (dateRanges st))"

definition isDateExcluded :: "manager \<Rightarrow> int \<Rightarrow> bool" where
  "isDateExcluded st ts = (if ts = 0 then False else ts \<in> excludedDates st)"

fun itemMatches :: "string \<Rightarrow> blockedItem \<Rightarrow> bool" where
  "itemMatches dateString (DatePrice d p) = (if d \<noteq> [] then d = dateString else False)"
| "itemMatches dateString (BareDate s) = (s = dateString)"

definition isDateBlocked :: "manager \<Rightarrow> string \<Rightarrow> monthKey \<Rightarrow> bool" where
  "isDateBlocked st dateString monthYearKey =
     (if dateString = [] then False
      else case blockedDates st monthYearKey of
             None \<Rightarrow> False
           | Some items \<Rightarrow> list_ex (itemMatches dateString) items)"

definition getBlockedDatePrice :: "manager \<Rightarrow> string \<Rightarrow> monthKey \<Rightarrow> int" where
  "getBlockedDatePrice st dateString monthYearKey =
     (if dateString = [] then 0
      else case blockedDates st monthYearKey of
             None \<Rightarrow> 0
           | Some items \<Rightarrow>
               (case find (itemMatches dateString) items of
                  None \<Rightarrow> 0
                | Some (DatePrice d p) \<Rightarrow> p
                | Some (BareDate s) \<Rightarrow> 0))"

text \<open>\<open>isRangeOverlap(newStart, newEnd)\<close>: \<open>false\<close> when either timestamp is falsy.\<close>

definition isRangeOverlap :: "manager \<Rightarrow> int \<Rightarrow> int \<Rightarrow> bool" where
  "isRangeOverlap st newStart newEnd =
     (if newStart = 0 \<or> newEnd = 0 then False
      else list_ex (\<lambda>r. newStart \<le> timestamp (range_end r) \<and>
                        newEnd \<ge> timestamp (range_start r)) (dateRanges st))"

section \<open>Computing a discounted price\<close>

text \<open>
  The discount argument of \<open>applyDiscount(basePrice, discountStr)\<close>: a string, a number
  with an integer value, the number \<open>NaN\<close>, or a value of any other type. Prices are
  integers; \<open>Math.round\<close> rounds to the nearest integer, a half upwards, which is
  \<^const>\<open>round\<close>. The quotient is taken exactly, as the double-precision quotient of
  the source is rounded by \<open>Math.round\<close> to the same integer.
\<close>

datatype discountArg = DStr string | DNum int | DNaN | DOther

definition isDigit :: "char \<Rightarrow> bool" where
  "isDigit c = (c \<in> set ''0123456789'')"

definition digit_val :: "char \<Rightarrow> int" where
  "digit_val c = int (of_char c) - 48"

text \<open>\<open>parseInt\<close> on a string without sign or blanks: the leading run of decimal digits,
  \<open>NaN\<close> (here \<open>None\<close>) when it is empty.\<close>

definition parseInt :: "string \<Rightarrow> int option" where
  "parseInt s =
     (let ds = takeWhile isDigit s
      in if ds = [] then None else Some (foldl (\<lambda>acc c. 10 * acc + digit_val c) 0 ds))"

definition Math_round :: "rat \<Rightarrow> int" where
  "Math_round x = round x"

text \<open>\<open>applyDiscount\<close> of \<open>calendar.js\<close> (the same in \<open>new_calendar.js\<close>).\<close>

definition checkDiscount :: "int \<Rightarrow> int option \<Rightarrow> int" where
  "checkDiscount basePrice discountValue =
     (case discountValue of
        None \<Rightarrow> basePrice
      | Some v \<Rightarrow>
          if v < 0 \<or> v > 100 then basePrice
          else Math_round (of_int (basePrice * (100 - v)) / 100))"

definition applyDiscount :: "int \<Rightarrow> discountArg \<Rightarrow> int" where
  "applyDiscount basePrice discountStr =
     (case discountStr of
        DStr s \<Rightarrow> checkDiscount basePrice (parseInt (filter (\<lambda>c. isDigit c \<or> c = CHR ''.'') s))
      | DNum n \<Rightarrow> checkDiscount basePrice (Some n)
      | DNaN \<Rightarrow> checkDiscount basePrice None
      | DOther \<Rightarrow> basePrice)"


section \<open>The display of one day\<close>

text \<open>
  The body of the loop of \<open>updateAllDaysDisplay()\<close> in \<open>calendar.js\<close> for the cell that
  shows \<open>day\<close>: the classes it toggles and the text it writes into the price element.
  The result is \<open>None\<close> where the source returns before touching the cell.
\<close>

record cellDisplay =
  is_selected :: bool
  is_active :: bool
  is_blocked :: bool
  is_blocked_active :: bool
  service_price :: int

definition updateDayDisplay ::
  "manager \<Rightarrow> int option \<Rightarrow> string \<Rightarrow> int \<Rightarrow> int \<Rightarrow> cellDisplay option" where
  "updateDayDisplay st costInput currentMonthName yearNum d =
     (case createFullDate d currentMonthName yearNum of
        None \<Rightarrow> None
      | Some fullDate \<Rightarrow>
          let basePrice = getBasePrice st costInput;
              monthNum = month_of fullDate;
              monthYearKey = (yearNum, monthNum);
              ts = timestamp fullDate;
              dateString = formatDate d monthNum yearNum;
              isInRange = isDateInRanges st (Some fullDate);
              isExcluded = isDateExcluded st ts;
              isBlocked = isDateBlocked st dateString monthYearKey;
              hasDiscount = (dateDiscounts st ts \<noteq> None)
          in Some \<lparr>is_selected = (isInRange \<and> \<not> isExcluded \<and> \<not> isBlocked),
                   is_active = (hasDiscount \<and> \<not> isExcluded \<and> \<not> isBlocked),
                   is_blocked = isBlocked,
                   is_blocked_active = isBlocked,
                   service_price =
                     (if isBlocked then getBlockedDatePrice st dateString monthYearKey
                      else if isExcluded then basePrice
                      else case dateDiscounts st ts of
                             Some v \<Rightarrow> v
                           | None \<Rightarrow> basePrice)\<rparr>)"

section \<open>Cancelling the last range\<close>

text \<open>The loop of \<open>cancelLastRange()\<close> in \<open>calendar.js\<close>:
  \<open>for (timestamp = start; timestamp <= end; timestamp += 86400000) delete ...\<close>\<close>

function deleteDiscounts :: "int \<Rightarrow> int \<Rightarrow> (int \<rightharpoonup> int) \<Rightarrow> (int \<rightharpoonup> int)" where
  "deleteDiscounts ts endTimestamp m =
     (if ts \<le> endTimestamp
      then deleteDiscounts (ts + 86400000) endTimestamp (m(ts := None))
      else m)"
  by pat_completeness auto
termination
  by (relation "measure (\<lambda>(ts, e, m). nat (e - ts + 1))") auto

declare deleteDiscounts.simps [simp del]

definition cancelLastRange :: "manager \<Rightarrow> manager" where
  "cancelLastRange st =
     (if dateRanges st = [] then st
      else let lastRange = last (dateRanges st)
           in st\<lparr>dateRanges := butlast (dateRanges st),
                 dateDiscounts := deleteDiscounts (timestamp (range_start lastRange))
                                    (timestamp (range_end lastRange)) (dateDiscounts st),
                 isRangeConfirmed := True\<rparr>)"

text \<open>\<open>cancelLastRange()\<close> of \<open>v5.js\<close>: it pops the range and resets the selection; the
  rest of its body changes classes of the page only.\<close>

definition cancelLastRange_v5 :: "manager \<Rightarrow> manager" where
  "cancelLastRange_v5 st =
     (if dateRanges st = [] then st
      else st\<lparr>dateRanges := butlast (dateRanges st),
              isRangeConfirmed := True,
              startDay := None, startMonth := None, startYear := None\<rparr>)"

section \<open>Month prices\<close>

text \<open>\<open>prices.findIndex(item => item.date === dateString)\<close> followed by an assignment to
  the price of the entry found, and the same with a \<open>push\<close> when none is found.\<close>

fun setPrice :: "string \<Rightarrow> int \<Rightarrow> priceItem list \<Rightarrow> priceItem list" where
  "setPrice dateString v [] = []"
| "setPrice dateString v (p # ps) =
     (if item_date p = dateString then p\<lparr>item_price := v\<rparr> # ps
      else p # setPrice dateString v ps)"

definition hasPrice :: "string \<Rightarrow> priceItem list \<Rightarrow> bool" where
  "hasPrice dateString ps = list_ex (\<lambda>p. item_date p = dateString) ps"

definition upsertPrice :: "string \<Rightarrow> int \<Rightarrow> priceItem list \<Rightarrow> priceItem list" where
  "upsertPrice dateString v ps =
     (if hasPrice dateString ps then setPrice dateString v ps
      else ps @ [\<lparr>item_date = dateString, item_price = v\<rparr>])"

text \<open>The record a month gets when it has none: \<open>{prices: [], defaultCost: basePrice}\<close>.\<close>

definition monthOrNew :: "manager \<Rightarrow> monthKey \<Rightarrow> int \<Rightarrow> monthData" where
  "monthOrNew st monthKey basePrice =
     (case basePrices st monthKey of
        None \<Rightarrow> \<lparr>prices = [], defaultCost = basePrice\<rparr>
      | Some md \<Rightarrow> md)"

text \<open>\<open>ensureBasePrices(monthKey)\<close> of \<open>v5.js\<close>.\<close>

definition ensureDay :: "int \<Rightarrow> int \<Rightarrow> int \<Rightarrow> int \<Rightarrow> priceItem list \<Rightarrow> priceItem list" where
  "ensureDay y m basePrice d ps =
     (let dateString = formatDate d m y
      in if hasPrice dateString ps then ps
         else ps @ [\<lparr>item_date = dateString, item_price = basePrice\<rparr>])"

definition ensureBasePrices_v5 :: "manager \<Rightarrow> int option \<Rightarrow> monthKey \<Rightarrow> manager" where
  "ensureBasePrices_v5 st costInput monthKey =
     (let y = fst monthKey; m = snd monthKey;
          n = daysInMonth y m;
          basePrice = getBasePrice st costInput;
          md = monthOrNew st monthKey basePrice
      in st\<lparr>basePrices := (basePrices st)
              (monthKey \<mapsto> md\<lparr>prices := fold (ensureDay y m basePrice) [1..n] (prices md)\<rparr>)\<rparr>)"

text \<open>
  \<open>ensureBasePrices(monthKey)\<close> of \<open>new_calendar.js\<close>. It walks the day cells of the
  page, given here as the list of the numbers they show, and compares with the dates
  that were present before the walk. Without a record for the month the source fails on
  \<open>undefined.prices\<close> and its \<open>catch\<close> leaves the state as it was.
\<close>

definition ensureCell ::
  "int \<Rightarrow> int \<Rightarrow> string list \<Rightarrow> int \<Rightarrow> int \<Rightarrow> priceItem list \<Rightarrow> priceItem list" where
  "ensureCell y m existingDates cost d ps =
     (if d < 1 \<or> d > 31 then ps
      else let date = formatDate d m y
           in if date \<in> set existingDates then ps
              else ps @ [\<lparr>item_date = date, item_price = cost\<rparr>])"

definition ensureBasePrices :: "manager \<Rightarrow> monthKey \<Rightarrow> int list \<Rightarrow> manager" where
  "ensureBasePrices st monthKey cells =
     (case basePrices st monthKey of
        None \<Rightarrow> st
      | Some md \<Rightarrow>
          let y = fst monthKey; m = snd monthKey;
              existingDates = map item_date (prices md)
          in st\<lparr>basePrices := (basePrices st)
                  (monthKey \<mapsto> md\<lparr>prices :=
                     fold (ensureCell y m existingDates (defaultCost md)) cells (prices md)\<rparr>)\<rparr>)"

section \<open>Clicks on a day, \<open>new_calendar.js\<close>\<close>

text \<open>\<open>excludeDay\<close>; the cell and its price element are taken to exist. The discount is
  deleted under \<open>if (this.calendarData.dateDiscounts[fullDate.timestamp])\<close>.\<close>

definition excludeDay ::
  "manager \<Rightarrow> int option \<Rightarrow> fullDate \<Rightarrow> int \<Rightarrow> string \<Rightarrow> int \<Rightarrow> manager" where
  "excludeDay st costInput fullDate currentDate currentMonthName currentYear =
     (if timestamp fullDate = 0 then st
      else
        let basePrice = getBasePrice st costInput;
            ts = timestamp fullDate;
            st1 = st\<lparr>excludedDates := insert ts (excludedDates st)\<rparr>;
            st2 = (case dateDiscounts st1 ts of
                     None \<Rightarrow> st1
                   | Some v \<Rightarrow>
                       if v \<noteq> 0 then st1\<lparr>dateDiscounts := (dateDiscounts st1)(ts := None)\<rparr>
                       else st1)
        in case MONTH_MAP currentMonthName of
             None \<Rightarrow> st2
           | Some monthNum \<Rightarrow>
               let date = formatDate currentDate monthNum currentYear;
                   monthKey = currentMonthKey st2;
                   st3 = (case basePrices st2 monthKey of
                            None \<Rightarrow> st2
                          | Some md \<Rightarrow>
                              st2\<lparr>basePrices := (basePrices st2)
                                    (monthKey \<mapsto> md\<lparr>prices := setPrice date basePrice (prices md)\<rparr>)\<rparr>)
               in st3\<lparr>startDay := None, startMonth := None, startYear := None\<rparr>)"

definition startRangeSelection ::
  "manager \<Rightarrow> int \<Rightarrow> string \<Rightarrow> int \<Rightarrow> fullDate option \<Rightarrow> manager" where
  "startRangeSelection st currentDate currentMonthName currentYear fullDate =
     (case fullDate of
        None \<Rightarrow> st
      | Some fd \<Rightarrow>
          if timestamp fd = 0 then st
          else
            let st1 = (if isDateExcluded st (timestamp fd)
                       then st\<lparr>excludedDates := excludedDates st - {timestamp fd}\<rparr>
                       else st)
            in st1\<lparr>startDay := Some currentDate,
                    startMonth := Some currentMonthName,
                    startYear := Some currentYear\<rparr>)"

text \<open>\<open>!this.tempSelection.start\<close>\<close>

definition startFalsy :: "manager \<Rightarrow> bool" where
  "startFalsy st = (case startDay st of None \<Rightarrow> True | Some s \<Rightarrow> s = 0)"

text \<open>The start date that \<open>completeRangeSelection\<close> builds from the selection; \<open>null\<close>
  when a field of the selection is \<open>null\<close>.\<close>

definition selectionStartDate :: "manager \<Rightarrow> fullDate option" where
  "selectionStartDate st =
     (case (startDay st, startMonth st, startYear st) of
        (Some d, Some mn, Some y) \<Rightarrow> createFullDate d mn y
      | _ \<Rightarrow> None)"

definition completeRangeSelection :: "manager \<Rightarrow> fullDate option \<Rightarrow> manager" where
  "completeRangeSelection st fullDate =
     (case fullDate of
        None \<Rightarrow> st
      | Some endDate \<Rightarrow>
          if timestamp endDate = 0 \<or> startFalsy st then st
          else (case selectionStartDate st of
                  None \<Rightarrow> st
                | Some startDate \<Rightarrow>
                    let r = (if timestamp startDate > timestamp endDate
                             then \<lparr>range_start = endDate, range_end = startDate\<rparr>
                             else \<lparr>range_start = startDate, range_end = endDate\<rparr>)
                    in st\<lparr>dateRanges := dateRanges st @ [r],
                          isRangeConfirmed := False,
                          startDay := None, startMonth := None, startYear := None\<rparr>))"

text \<open>\<open>handleBlockedDayClick\<close>: \<open>wasActive\<close> says whether the cell had the class
  \<open>is-blocked-active\<close> when it was clicked.\<close>

definition handleBlockedDayClick ::
  "manager \<Rightarrow> int option \<Rightarrow> bool \<Rightarrow> int \<Rightarrow> string \<Rightarrow> int \<Rightarrow> manager" where
  "handleBlockedDayClick st costInput wasActive d currentMonthName yearNum =
     (if d < 1 \<or> d > 31 then st
      else (case MONTH_MAP currentMonthName of
             None \<Rightarrow> st
           | Some monthNum \<Rightarrow>
               let monthYearKey = (yearNum, monthNum);
                   dateString = formatDate d monthNum yearNum
               in if \<not> wasActive then st
                  else (case blockedDates st monthYearKey of
                          None \<Rightarrow> st
                        | Some items \<Rightarrow>
                            let st1 = st\<lparr>blockedDates := (blockedDates st)
                                  (monthYearKey \<mapsto> filter (\<lambda>i. \<not> itemMatches dateString i) items)\<rparr>
                            in (case basePrices st1 monthYearKey of
                                  None \<Rightarrow> st1
                                | Some md \<Rightarrow>
                                    st1\<lparr>basePrices := (basePrices st1)
                                      (monthYearKey \<mapsto> md\<lparr>prices :=
                                         setPrice dateString (getBasePrice st costInput)
                                           (prices md)\<rparr>)\<rparr>))))"

text \<open>\<open>handleDayClick(event)\<close> for a click inside a day cell that shows \<open>currentDate\<close>;
  \<open>cellBlocked\<close> and \<open>cellActive\<close> are the classes \<open>is-blocked\<close> and
  \<open>is-blocked-active\<close> of the cell.\<close>

definition handleDayClick ::
  "manager \<Rightarrow> int option \<Rightarrow> bool \<Rightarrow> bool \<Rightarrow> int \<Rightarrow> string \<Rightarrow> int \<Rightarrow> manager" where
  "handleDayClick st costInput cellBlocked cellActive currentDate currentMonthName currentYear =
     (if \<not> isRangeConfirmed st then st
      else if cellBlocked
      then handleBlockedDayClick st costInput cellActive currentDate currentMonthName currentYear
      else
        let fullDate = createFullDate currentDate currentMonthName currentYear;
            isInRange = isDateInRanges st fullDate
        in case fullDate of
             Some fd \<Rightarrow>
               if isInRange \<and> \<not> isDateExcluded st (timestamp fd)
               then excludeDay st costInput fd currentDate currentMonthName currentYear
               else if startFalsy st
               then startRangeSelection st currentDate currentMonthName currentYear fullDate
               else completeRangeSelection st fullDate
           | None \<Rightarrow>
               if startFalsy st
               then startRangeSelection st currentDate currentMonthName currentYear fullDate
               else completeRangeSelection st fullDate)"

section \<open>Clicks on a day, \<open>v5.js\<close>\<close>

text \<open>\<open>handleDayClick(day, dayWrapper)\<close> of \<open>v5.js\<close>, with the month name and the year the
  page shows. \<open>Math.min\<close> and \<open>Math.max\<close> read a \<open>null\<close> start as 0.\<close>

definition handleDayClick_v5 :: "manager \<Rightarrow> int \<Rightarrow> string \<Rightarrow> int \<Rightarrow> manager" where
  "handleDayClick_v5 st d monthName yearNum =
     (case createFullDate d monthName yearNum of
        None \<Rightarrow> st
      | Some fullDate \<Rightarrow>
          let monthNum = month_of fullDate;
              dateString = formatDate d monthNum yearNum;
              monthYearKey = (yearNum, monthNum)
          in if isDateBlocked st dateString monthYearKey then st
             else if isRangeConfirmed st
             then st\<lparr>startDay := Some d, startMonth := Some monthName,
                     startYear := Some yearNum, isRangeConfirmed := False\<rparr>
             else if startMonth st \<noteq> Some monthName \<or> startYear st \<noteq> Some yearNum
             then st\<lparr>isRangeConfirmed := True\<rparr>
             else
               let s = (case startDay st of None \<Rightarrow> 0 | Some s \<Rightarrow> s);
                   rangeStart = min s d;
                   rangeEnd = max s d
               in (case (createFullDate rangeStart monthName yearNum,
                         createFullDate rangeEnd monthName yearNum) of
                     (Some startDate, Some endDate) \<Rightarrow>
                       if isRangeOverlap st (timestamp startDate) (timestamp endDate)
                       then st\<lparr>isRangeConfirmed := True\<rparr>
                       else st\<lparr>dateRanges := dateRanges st @
                                    [\<lparr>range_start = startDate, range_end = endDate\<rparr>],
                                isRangeConfirmed := True\<rparr>
                   | _ \<Rightarrow> st\<lparr>isRangeConfirmed := True\<rparr>))"

text \<open>\<open>cancelRangeSelection()\<close> of \<open>v5.js\<close>.\<close>

definition cancelRangeSelection :: "manager \<Rightarrow> manager" where
  "cancelRangeSelection st =
     st\<lparr>isRangeConfirmed := True, startDay := None, startMonth := None, startYear := None\<rparr>"

section \<open>Discounts on weekends and on the last range, \<open>calendar.js\<close>\<close>


text \<open>One round of the loop of \<open>applyWeekendDiscount(discountPercent)\<close>.\<close>

definition applyWeekendDay :: "int \<Rightarrow> int \<Rightarrow> int \<Rightarrow> int \<Rightarrow> int \<Rightarrow> manager \<Rightarrow> manager" where
  "applyWeekendDay y m basePrice discountedPrice d st =
     (let date = newDate y (m - 1) d;
          isWeekend = (getDay date = 0 \<or> getDay date = 6)
      in if \<not> isWeekend then st
         else
           let dateString = formatDate d m y;
               monthKey = (y, m)
           in if isDateExcluded st date \<or> isDateBlocked st dateString monthKey then st
              else
                let md = monthOrNew st monthKey basePrice
                in st\<lparr>dateDiscounts := (dateDiscounts st)(date \<mapsto> discountedPrice),
                      basePrices := (basePrices st)
                        (monthKey \<mapsto> md\<lparr>prices := upsertPrice dateString discountedPrice (prices md)\<rparr>)\<rparr>)"

definition applyWeekendDiscount :: "manager \<Rightarrow> int option \<Rightarrow> discountArg \<Rightarrow> manager" where
  "applyWeekendDiscount st costInput discountPercent =
     (let y = fst (currentMonthKey st); m = snd (currentMonthKey st);
          basePrice = getBasePrice st costInput;
          discountedPrice = applyDiscount basePrice discountPercent;
          n = daysInMonth y m
      in fold (applyWeekendDay y m basePrice discountedPrice) [1..n] st)"

definition resetWeekendDay :: "int \<Rightarrow> int \<Rightarrow> int \<Rightarrow> int \<Rightarrow> manager \<Rightarrow> manager" where
  "resetWeekendDay y m basePrice d st =
     (let date = newDate y (m - 1) d;
          isWeekend = (getDay date = 0 \<or> getDay date = 6)
      in if \<not> isWeekend then st
         else
           let dateString = formatDate d m y;
               monthKey = (y, m)
           in if isDateBlocked st dateString monthKey then st
              else
                let st1 = st\<lparr>dateDiscounts := (dateDiscounts st)(date := None)\<rparr>
                in case basePrices st1 monthKey of
                     None \<Rightarrow> st1
                   | Some md \<Rightarrow>
                       st1\<lparr>basePrices := (basePrices st1)
                             (monthKey \<mapsto> md\<lparr>prices := setPrice dateString basePrice (prices md)\<rparr>)\<rparr>)"

definition resetWeekendDiscounts :: "manager \<Rightarrow> int option \<Rightarrow> manager" where
  "resetWeekendDiscounts st costInput =
     (let y = fst (currentMonthKey st); m = snd (currentMonthKey st);
          basePrice = getBasePrice st costInput;
          n = daysInMonth y m
      in fold (resetWeekendDay y m basePrice) [1..n] st)"

text \<open>One round of the loop of \<open>applyDiscountToRange()\<close>, for the date value \<open>date\<close>, and
  the loop; \<open>date.setDate(date.getDate() + 1)\<close> adds one day.\<close>

definition discountOneDay :: "int \<Rightarrow> int \<Rightarrow> int \<Rightarrow> manager \<Rightarrow> manager" where
  "discountOneDay date basePrice discountedPrice st =
     (if isDateExcluded st date then st
      else
        let d = getDate date;
            m = getMonth date + 1;
            y = getFullYear date;
            dateString = formatDate d m y;
            monthKey = (y, m);
            md = monthOrNew st monthKey basePrice
        in st\<lparr>dateDiscounts := (dateDiscounts st)(date \<mapsto> discountedPrice),
              basePrices := (basePrices st)
                (monthKey \<mapsto> md\<lparr>prices := upsertPrice dateString discountedPrice (prices md)\<rparr>)\<rparr>)"

function discountRange :: "int \<Rightarrow> int \<Rightarrow> int \<Rightarrow> int \<Rightarrow> manager \<Rightarrow> manager" where
  "discountRange date endDate basePrice discountedPrice st =
     (if date \<le> endDate
      then discountRange (date + 86400000) endDate basePrice discountedPrice
             (discountOneDay date basePrice discountedPrice st)
      else st)"
  by pat_completeness auto
termination
  by (relation "measure (\<lambda>(date, endDate, b, p, st). nat (endDate - date + 1))") auto

declare discountRange.simps [simp del]

text \<open>\<open>applyDiscountToRange()\<close>; \<open>selectedDiscount\<close> is the text of the discount input.\<close>

definition applyDiscountToRange :: "manager \<Rightarrow> int option \<Rightarrow> string \<Rightarrow> manager" where
  "applyDiscountToRange st costInput selectedDiscount =
     (if dateRanges st = [] then st
      else if selectedDiscount = [] then st
      else
        let basePrice = getBasePrice st costInput;
            lastRange = last (dateRanges st);
            discountedPrice = applyDiscount basePrice (DStr selectedDiscount);
            st1 = discountRange (timestamp (range_start lastRange))
                    (timestamp (range_end lastRange)) basePrice discountedPrice st
        in st1\<lparr>isRangeConfirmed := True,
                startDay := None, startMonth := None, startYear := None\<rparr>)"

section \<open>Settings and clearing, \<open>new_calendar.js\<close>\<close>

text \<open>
  \<open>saveGlobalSettings()\<close>. Its last call, \<open>loadMonthPrices()\<close>, loads the current month
  when it has no record; the store is taken to hold nothing for that month and no blocked
  dates, as after \<open>clearAllDates()\<close>. \<open>cells\<close> are the day numbers the page shows.
\<close>

definition saveGlobalSettings :: "manager \<Rightarrow> int option \<Rightarrow> int list \<Rightarrow> manager" where
  "saveGlobalSettings st costInput cells =
     (let cost = getBasePrice st costInput;
          st1 = st\<lparr>globalDefaultCost := cost,
                   basePrices := (\<lambda>k. map_option (\<lambda>md. md\<lparr>defaultCost := cost\<rparr>) (basePrices st k))\<rparr>;
          monthKey = currentMonthKey st1
      in case basePrices st1 monthKey of
           Some md \<Rightarrow> st1
         | None \<Rightarrow>
             ensureBasePrices
               (st1\<lparr>basePrices := (basePrices st1)(monthKey \<mapsto> \<lparr>prices = [], defaultCost = cost\<rparr>),
                     blockedDates := Map.empty\<rparr>)
               monthKey cells)"

definition clearAllDates :: "manager \<Rightarrow> int option \<Rightarrow> int list \<Rightarrow> manager" where
  "clearAllDates st costInput cells =
     saveGlobalSettings
       (st\<lparr>dateRanges := [], excludedDates := {}, dateDiscounts := Map.empty,
            blockedDates := Map.empty,
            startDay := None, startMonth := None, startYear := None,
            isRangeConfirmed := True\<rparr>)
       costInput cells"

section \<open>The mutators as events\<close>

datatype event =
    DayClick "int option" bool bool int string int
  | CancelLastRange
  | ClearAllDates "int option" "int list"
  | ApplyDiscountToRange "int option" string
  | ApplyWeekendDiscount "int option" discountArg
  | ResetWeekendDiscounts "int option"
  | SaveGlobalSettings "int option" "int list"
  | EnsureBasePrices monthKey "int list"
  | DayClick_v5 int string int
  | CancelLastRange_v5
  | CancelRangeSelection_v5
  | EnsureBasePrices_v5 "int option" monthKey

fun step :: "manager \<Rightarrow> event \<Rightarrow> manager" where
  "step st (DayClick c b a d mn y) = handleDayClick st c b a d mn y"
| "step st CancelLastRange = cancelLastRange st"
| "step st (ClearAllDates c cells) = clearAllDates st c cells"
| "step st (ApplyDiscountToRange c s) = applyDiscountToRange st c s"
| "step st (ApplyWeekendDiscount c p) = applyWeekendDiscount st c p"
| "step st (ResetWeekendDiscounts c) = resetWeekendDiscounts st c"
| "step st (SaveGlobalSettings c cells) = saveGlobalSettings st c cells"
| "step st (EnsureBasePrices k cells) = ensureBasePrices st k cells"
| "step st (DayClick_v5 d mn y) = handleDayClick_v5 st d mn y"
| "step st CancelLastRange_v5 = cancelLastRange_v5 st"
| "step st CancelRangeSelection_v5 = cancelRangeSelection st"
| "step st (EnsureBasePrices_v5 c k) = ensureBasePrices_v5 st c k"



section \<open>States used as examples\<close>

text \<open>The state the constructor sets up, for a current month.\<close>

definition newManager :: "monthKey \<Rightarrow> manager" where
  "newManager k =
     \<lparr>dateRanges = [], excludedDates = {}, dateDiscounts = Map.empty,
      blockedDates = Map.empty, basePrices = Map.empty, globalDefaultCost = 250,
      startDay = None, startMonth = None, startYear = None,
      isRangeConfirmed = True, currentMonthKey = k\<rparr>"

text \<open>The date object \<open>createFullDate\<close> returns for a day, a month number and a year.\<close>

definition mkDate :: "int \<Rightarrow> int \<Rightarrow> int \<Rightarrow> fullDate" where
  "mkDate d m y = \<lparr>day_of = d, month_of = m, year_of = y,
                   timestamp = newDate y (m - 1) d\<rparr>"

text \<open>January 1970 with the range from the 1st to the 3rd.\<close>

definition jan1970 :: manager where
  "jan1970 = (newManager (1970, 1))
     \<lparr>dateRanges := [\<lparr>range_start = mkDate 1 1 1970, range_end = mkDate 3 1 1970\<rparr>]\<rparr>"

text \<open>November 2026 with the range from the 10th to the 15th, a discounted price for the
  12th, inside the range, and for the 20th, outside.\<close>

definition nov2026 :: manager where
  "nov2026 = (newManager (2026, 11))
     \<lparr>dateRanges := [\<lparr>range_start = mkDate 10 11 2026, range_end = mkDate 15 11 2026\<rparr>],
      dateDiscounts := map_of [(timestamp (mkDate 12 11 2026), 270),
                               (timestamp (mkDate 20 11 2026), 270)]\<rparr>"

text \<open>A date object with a given timestamp.\<close>

definition atTime :: "int \<Rightarrow> fullDate" where
  "atTime ts = \<lparr>day_of = 0, month_of = 0, year_of = 0, timestamp = ts\<rparr>"

text \<open>\<open>nov2026\<close> with the 11th blocked by a bare string, the 12th blocked at the price 40
  and the 13th excluded.\<close>

definition nov2026_blocked :: manager where
  "nov2026_blocked = nov2026
     \<lparr>blockedDates := [(2026, 11) \<mapsto> [BareDate ''11.11.2026'', DatePrice ''12.11.2026'' 40]],
      excludedDates := {timestamp (mkDate 13 11 2026)}\<rparr>"

text \<open>The range 10 to 15 November 2026 picked and a discount of 100 percent applied to it
  at the base price 250.\<close>

definition nov2026_full :: manager where
  "nov2026_full =
     applyDiscountToRange
       ((newManager (2026, 11))
          \<lparr>dateRanges := [\<lparr>range_start = mkDate 10 11 2026, range_end = mkDate 15 11 2026\<rparr>],
           isRangeConfirmed := False\<rparr>)
       (Some 250) ''100''"

text \<open>\<open>nov2026\<close> after a first click on the 8th, in \<open>new_calendar.js\<close> and in \<open>v5.js\<close>.\<close>

definition nov2026_picking :: manager where
  "nov2026_picking = nov2026
     \<lparr>startDay := Some 8, startMonth := Some ''November'', startYear := Some 2026\<rparr>"

definition nov2026_picking_v5 :: manager where
  "nov2026_picking_v5 = nov2026
     \<lparr>startDay := Some 8, startMonth := Some ''November'', startYear := Some 2026,
      isRangeConfirmed := False\<rparr>"


section \<open>Membership of a date in the ranges\<close>

lemma createFullDate_mkDate:
  "MONTH_MAP mn = Some m \<Longrightarrow> createFullDate d mn y = Some (mkDate d m y)"
  by (simp add: createFullDate_def mkDate_def)

lemma jan1970_epoch: "createFullDate 1 ''January'' 1970 = Some (mkDate 1 1 1970)"
  by code_simp

text \<open>
  C9, as the code has it: \<open>isDateInRanges(date)\<close> is true if and only if the timestamp of
  the date is not 0 and lies within \<open>[start.timestamp, end.timestamp]\<close> of at least one
  stored range, both ends included. A date whose timestamp is 0 is reported as outside
  every range, and so is \<open>null\<close>.
\<close>

theorem isDateInRanges_iff:
  "isDateInRanges st (Some fd) =
     (timestamp fd \<noteq> 0 \<and>
      (\<exists>r \<in> set (dateRanges st).
         timestamp (range_start r) \<le> timestamp fd \<and> timestamp fd \<le> timestamp (range_end r)))
   \<and> \<not> isDateInRanges st None"
  by (auto simp: isDateInRanges_def list_ex_iff)

text \<open>At both ends of the range of \<open>nov2026\<close> the date is inside, one millisecond before
  the start and one millisecond after the end it is outside.\<close>

theorem isDateInRanges_iff_witness:
  "isDateInRanges nov2026 (Some (atTime 1794268800000)) \<and>
   isDateInRanges nov2026 (Some (atTime 1794700800000)) \<and>
   \<not> isDateInRanges nov2026 (Some (atTime 1794268799999)) \<and>
   \<not> isDateInRanges nov2026 (Some (atTime 1794700800001)) \<and>
   timestamp (mkDate 10 11 2026) = 1794268800000 \<and>
   timestamp (mkDate 15 11 2026) = 1794700800000"
proof -
  have inside: "\<And>t. isDateInRanges nov2026 (Some (atTime t)) =
     (timestamp (atTime t) \<noteq> 0 \<and>
      (\<exists>r \<in> set (dateRanges nov2026).
         timestamp (range_start r) \<le> timestamp (atTime t) \<and>
         timestamp (atTime t) \<le> timestamp (range_end r)))"
    using isDateInRanges_iff [of nov2026] by blast
  have "timestamp (atTime 1794268800000) \<noteq> 0 \<and>
      (\<exists>r \<in> set (dateRanges nov2026).
         timestamp (range_start r) \<le> timestamp (atTime 1794268800000) \<and>
         timestamp (atTime 1794268800000) \<le> timestamp (range_end r))"
    by code_simp
  then have a: "isDateInRanges nov2026 (Some (atTime 1794268800000))"
    using inside by blast
  have "timestamp (atTime 1794700800000) \<noteq> 0 \<and>
      (\<exists>r \<in> set (dateRanges nov2026).
         timestamp (range_start r) \<le> timestamp (atTime 1794700800000) \<and>
         timestamp (atTime 1794700800000) \<le> timestamp (range_end r))"
    by code_simp
  then have b: "isDateInRanges nov2026 (Some (atTime 1794700800000))"
    using inside by blast
  have "\<not> (timestamp (atTime 1794268799999) \<noteq> 0 \<and>
      (\<exists>r \<in> set (dateRanges nov2026).
         timestamp (range_start r) \<le> timestamp (atTime 1794268799999) \<and>
         timestamp (atTime 1794268799999) \<le> timestamp (range_end r)))"
    by code_simp
  then have c: "\<not> isDateInRanges nov2026 (Some (atTime 1794268799999))"
    using inside by blast
  have "\<not> (timestamp (atTime 1794700800001) \<noteq> 0 \<and>
      (\<exists>r \<in> set (dateRanges nov2026).
         timestamp (range_start r) \<le> timestamp (atTime 1794700800001) \<and>
         timestamp (atTime 1794700800001) \<le> timestamp (range_end r)))"
    by code_simp
  then have d: "\<not> isDateInRanges nov2026 (Some (atTime 1794700800001))"
    using inside by blast
  have e: "timestamp (mkDate 10 11 2026) = 1794268800000" by code_simp
  have f: "timestamp (mkDate 15 11 2026) = 1794700800000" by code_simp
  from a b c d e f show ?thesis by blast
qed

text \<open>The claim as it is written fails for the date with timestamp 0, 1 January 1970, the
  first day of the stored range of \<open>jan1970\<close>.\<close>

theorem isDateInRanges_zero_counterexample:
  "timestamp (range_start (hd (dateRanges jan1970))) \<le> timestamp (mkDate 1 1 1970) \<and>
   timestamp (mkDate 1 1 1970) \<le> timestamp (range_end (hd (dateRanges jan1970))) \<and>
   \<not> isDateInRanges jan1970 (Some (mkDate 1 1 1970))"
  by code_simp

section \<open>Overlap of a candidate range\<close>

text \<open>
  C5, as the code has it: for timestamps \<open>newStart\<close> and \<open>newEnd\<close> that are both not 0,
  \<open>isRangeOverlap(newStart, newEnd)\<close> is true if and only if some stored range has
  \<open>newStart <= range.end.timestamp\<close> and \<open>newEnd >= range.start.timestamp\<close>; when one of
  the two timestamps is 0 the result is false.
\<close>

theorem isRangeOverlap_iff:
  "isRangeOverlap st newStart newEnd =
     (newStart \<noteq> 0 \<and> newEnd \<noteq> 0 \<and>
      (\<exists>r \<in> set (dateRanges st).
         newStart \<le> timestamp (range_end r) \<and> newEnd \<ge> timestamp (range_start r)))"
  by (auto simp: isRangeOverlap_def list_ex_iff)

text \<open>With the range 10 to 15 November stored: the same range, a nested one (11 to 12) and
  ranges over either edge (8 to 11, 14 to 20) overlap; the adjacent ranges 16 to 18 and
  5 to 9 do not.\<close>

theorem isRangeOverlap_iff_witness:
  "isRangeOverlap nov2026 (timestamp (mkDate 10 11 2026)) (timestamp (mkDate 15 11 2026)) \<and>
   isRangeOverlap nov2026 (timestamp (mkDate 11 11 2026)) (timestamp (mkDate 12 11 2026)) \<and>
   isRangeOverlap nov2026 (timestamp (mkDate 8 11 2026)) (timestamp (mkDate 11 11 2026)) \<and>
   isRangeOverlap nov2026 (timestamp (mkDate 14 11 2026)) (timestamp (mkDate 20 11 2026)) \<and>
   \<not> isRangeOverlap nov2026 (timestamp (mkDate 16 11 2026)) (timestamp (mkDate 18 11 2026)) \<and>
   \<not> isRangeOverlap nov2026 (timestamp (mkDate 5 11 2026)) (timestamp (mkDate 9 11 2026))"
proof -
  have ov: "\<And>a b. isRangeOverlap nov2026 a b =
     (a \<noteq> 0 \<and> b \<noteq> 0 \<and>
      (\<exists>r \<in> set (dateRanges nov2026).
         a \<le> timestamp (range_end r) \<and> b \<ge> timestamp (range_start r)))"
    by (rule isRangeOverlap_iff)
  have r: "dateRanges nov2026 = [\<lparr>range_start = mkDate 10 11 2026, range_end = mkDate 15 11 2026\<rparr>]"
    by (simp add: nov2026_def)
  have t: "timestamp (mkDate 5 11 2026) = 1793836800000"
          "timestamp (mkDate 8 11 2026) = 1794096000000"
          "timestamp (mkDate 9 11 2026) = 1794182400000"
          "timestamp (mkDate 10 11 2026) = 1794268800000"
          "timestamp (mkDate 11 11 2026) = 1794355200000"
          "timestamp (mkDate 12 11 2026) = 1794441600000"
          "timestamp (mkDate 14 11 2026) = 1794614400000"
          "timestamp (mkDate 15 11 2026) = 1794700800000"
          "timestamp (mkDate 16 11 2026) = 1794787200000"
          "timestamp (mkDate 18 11 2026) = 1794960000000"
          "timestamp (mkDate 20 11 2026) = 1795132800000"
    by code_simp+
  show ?thesis
    unfolding ov r by (simp add: t)
qed

text \<open>The claim as it is written fails for the candidate from timestamp 0 to the 2nd of
  January 1970, which shares two days with the stored range of \<open>jan1970\<close>.\<close>

theorem isRangeOverlap_zero_counterexample:
  "timestamp (mkDate 1 1 1970) \<le> timestamp (range_end (hd (dateRanges jan1970))) \<and>
   timestamp (mkDate 2 1 1970) \<ge> timestamp (range_start (hd (dateRanges jan1970))) \<and>
   \<not> isRangeOverlap jan1970 (timestamp (mkDate 1 1 1970)) (timestamp (mkDate 2 1 1970))"
  by code_simp

section \<open>The price and the status of a day\<close>

text \<open>
  C1: for the cell of a day of the displayed month, \<open>updateAllDaysDisplay\<close> derives the
  status and the price in the order blocked, excluded, discounted, default. A blocked day
  is marked blocked and shows the price of its blocked entry, and is neither selected nor
  active, whatever ranges and discounts hold for it. Otherwise an excluded day shows the
  base price, also when a discount entry exists. Otherwise a day with a discount entry
  shows the stored discount value and is active. Otherwise the day shows the base price;
  it is selected exactly when it lies in a range.
\<close>

theorem updateDayDisplay_precedence:
  assumes "MONTH_MAP mn = Some m"
  shows "case updateDayDisplay st c mn y d of
           None \<Rightarrow> False
         | Some cell \<Rightarrow>
             (let ts = newDate y (m - 1) d;
                  dateString = formatDate d m y;
                  blocked = isDateBlocked st dateString (y, m);
                  excluded = isDateExcluded st ts
              in is_blocked cell = blocked \<and>
                 (blocked \<longrightarrow>
                    service_price cell = getBlockedDatePrice st dateString (y, m) \<and>
                    \<not> is_selected cell \<and> \<not> is_active cell) \<and>
                 (\<not> blocked \<and> excluded \<longrightarrow>
                    service_price cell = getBasePrice st c \<and>
                    \<not> is_selected cell \<and> \<not> is_active cell) \<and>
                 (\<not> blocked \<and> \<not> excluded \<longrightarrow>
                    (\<forall>v. dateDiscounts st ts = Some v \<longrightarrow>
                         service_price cell = v \<and> is_active cell) \<and>
                    (dateDiscounts st ts = None \<longrightarrow>
                         service_price cell = getBasePrice st c \<and> \<not> is_active cell) \<and>
                    is_selected cell = isDateInRanges st (Some (mkDate d m y))))"
  using assms
  by (auto simp: updateDayDisplay_def createFullDate_def mkDate_def Let_def)

text \<open>In \<open>nov2026_blocked\<close> the 12th lies in the range, has a discount and is blocked
  at the price 40; the 13th is excluded, the 20th only discounted, the 14th only selected.\<close>

theorem updateDayDisplay_precedence_witness:
  "MONTH_MAP ''November'' = Some 11 \<and>
   isDateInRanges nov2026_blocked (Some (mkDate 12 11 2026)) \<and>
   dateDiscounts nov2026_blocked (timestamp (mkDate 12 11 2026)) = Some 270 \<and>
   (case updateDayDisplay nov2026_blocked (Some 300) ''November'' 2026 12 of
      None \<Rightarrow> False
    | Some cell \<Rightarrow> is_blocked cell \<and> service_price cell = 40 \<and>
                   \<not> is_selected cell \<and> \<not> is_active cell) \<and>
   (case updateDayDisplay nov2026_blocked (Some 300) ''November'' 2026 13 of
      None \<Rightarrow> False
    | Some cell \<Rightarrow> \<not> is_blocked cell \<and> service_price cell = 300 \<and>
                   \<not> is_selected cell \<and> \<not> is_active cell) \<and>
   (case updateDayDisplay nov2026_blocked (Some 300) ''November'' 2026 20 of
      None \<Rightarrow> False
    | Some cell \<Rightarrow> \<not> is_blocked cell \<and> service_price cell = 270 \<and> is_active cell) \<and>
   (case updateDayDisplay nov2026_blocked (Some 300) ''November'' 2026 14 of
      None \<Rightarrow> False
    | Some cell \<Rightarrow> \<not> is_blocked cell \<and> service_price cell = 300 \<and>
                   is_selected cell \<and> \<not> is_active cell)"
proof -
  have h: "MONTH_MAP ''November'' = Some 11" by code_simp
  note T = updateDayDisplay_precedence [OF h, where st = nov2026_blocked and c = "Some 300" and y = 2026]
  have r: "isDateInRanges nov2026_blocked (Some (mkDate 12 11 2026))" by code_simp
  have v: "dateDiscounts nov2026_blocked (timestamp (mkDate 12 11 2026)) = Some 270" by code_simp
  have b12: "isDateBlocked nov2026_blocked (formatDate 12 11 2026) (2026, 11)"
    and p12: "getBlockedDatePrice nov2026_blocked (formatDate 12 11 2026) (2026, 11) = 40"
    by code_simp+
  have d12: "case updateDayDisplay nov2026_blocked (Some 300) ''November'' 2026 12 of
      None \<Rightarrow> False
    | Some cell \<Rightarrow> is_blocked cell \<and> service_price cell = 40 \<and>
                   \<not> is_selected cell \<and> \<not> is_active cell"
    using T [where d = 12] b12 p12 by (simp add: Let_def split: option.splits)
  have b13: "\<not> isDateBlocked nov2026_blocked (formatDate 13 11 2026) (2026, 11)"
    and e13: "isDateExcluded nov2026_blocked (newDate 2026 (11 - 1) 13)"
    and g: "getBasePrice nov2026_blocked (Some 300) = 300"
    by code_simp+
  have d13: "case updateDayDisplay nov2026_blocked (Some 300) ''November'' 2026 13 of
      None \<Rightarrow> False
    | Some cell \<Rightarrow> \<not> is_blocked cell \<and> service_price cell = 300 \<and>
                   \<not> is_selected cell \<and> \<not> is_active cell"
    using T [where d = 13] b13 e13 g by (simp add: Let_def split: option.splits)
  have b20: "\<not> isDateBlocked nov2026_blocked (formatDate 20 11 2026) (2026, 11)"
    and e20: "\<not> isDateExcluded nov2026_blocked (newDate 2026 (11 - 1) 20)"
    and v20: "dateDiscounts nov2026_blocked (newDate 2026 (11 - 1) 20) = Some 270"
    by code_simp+
  have d20: "case updateDayDisplay nov2026_blocked (Some 300) ''November'' 2026 20 of
      None \<Rightarrow> False
    | Some cell \<Rightarrow> \<not> is_blocked cell \<and> service_price cell = 270 \<and> is_active cell"
    using T [where d = 20] b20 e20 v20 by (simp add: Let_def split: option.splits)
  have b14: "\<not> isDateBlocked nov2026_blocked (formatDate 14 11 2026) (2026, 11)"
    and e14: "\<not> isDateExcluded nov2026_blocked (newDate 2026 (11 - 1) 14)"
    and v14: "dateDiscounts nov2026_blocked (newDate 2026 (11 - 1) 14) = None"
    and r14: "isDateInRanges nov2026_blocked (Some (mkDate 14 11 2026))"
    by code_simp+
  have d14: "case updateDayDisplay nov2026_blocked (Some 300) ''November'' 2026 14 of
      None \<Rightarrow> False
    | Some cell \<Rightarrow> \<not> is_blocked cell \<and> service_price cell = 300 \<and>
                   is_selected cell \<and> \<not> is_active cell"
    using T [where d = 14] b14 e14 v14 r14 g by (simp add: Let_def split: option.splits)
  from h r v d12 d13 d20 d14 show ?thesis by blast
qed

section \<open>The discount computation\<close>




text \<open>In \<open>calendar.js\<close> the minus sign of a string is removed with the other characters
  that are not digits or dots, before the percent is checked.\<close>

lemma applyDiscount_sign_stripped:
  "applyDiscount 250 (DStr ''-20'') = 200"
  by code_simp

section \<open>The effect of cancelling the last range\<close>

lemma deleteDiscounts_eq:
  "deleteDiscounts s e m k =
     (if (\<exists>n::nat. k = s + int n * 86400000 \<and> k \<le> e) then None else m k)"
proof (induction s e m rule: deleteDiscounts.induct)
  case (1 ts e m)
  show ?case
  proof (cases "ts \<le> e")
    case False
    then have neg: "(\<exists>n::nat. k = ts + int n * 86400000 \<and> k \<le> e) = False" by auto
    from False have "deleteDiscounts ts e m k = m k"
      by (simp add: deleteDiscounts.simps [of ts e m])
    then show ?thesis by (simp only: neg if_False)
  next
    case True
    have step: "(\<exists>n::nat. k = ts + int n * 86400000 \<and> k \<le> e) =
          (k = ts \<or> (\<exists>n::nat. k = ts + 86400000 + int n * 86400000 \<and> k \<le> e))"
    proof
      assume "\<exists>n::nat. k = ts + int n * 86400000 \<and> k \<le> e"
      then obtain n :: nat where n: "k = ts + int n * 86400000" "k \<le> e" by blast
      show "k = ts \<or> (\<exists>n::nat. k = ts + 86400000 + int n * 86400000 \<and> k \<le> e)"
      proof (cases n)
        case 0 with n show ?thesis by simp
      next
        case (Suc j)
        with n have "k = ts + 86400000 + int j * 86400000 \<and> k \<le> e" by (simp add: algebra_simps)
        then show ?thesis by blast
      qed
    next
      assume "k = ts \<or> (\<exists>n::nat. k = ts + 86400000 + int n * 86400000 \<and> k \<le> e)"
      then show "\<exists>n::nat. k = ts + int n * 86400000 \<and> k \<le> e"
      proof
        assume "k = ts"
        with True have "k = ts + int 0 * 86400000 \<and> k \<le> e" by simp
        then show ?thesis by blast
      next
        assume "\<exists>n::nat. k = ts + 86400000 + int n * 86400000 \<and> k \<le> e"
        then obtain j :: nat where "k = ts + 86400000 + int j * 86400000" "k \<le> e" by blast
        then have "k = ts + int (Suc j) * 86400000 \<and> k \<le> e" by (simp add: algebra_simps)
        then show ?thesis by blast
      qed
    qed
    from True have "deleteDiscounts ts e m k = deleteDiscounts (ts + 86400000) e (m(ts := None)) k"
      by (simp add: deleteDiscounts.simps [of ts e m])
    also have "\<dots> = (if (\<exists>n::nat. k = ts + 86400000 + int n * 86400000 \<and> k \<le> e) then None
                     else (m(ts := None)) k)"
      using "1.IH" [OF True] .
    also have "\<dots> = (if (\<exists>n::nat. k = ts + int n * 86400000 \<and> k \<le> e) then None else m k)"
      unfolding step by auto
    finally show ?thesis .
  qed
qed

text \<open>
  C4, as the code has it. Without a stored range \<open>cancelLastRange\<close> leaves the state as
  it is, in \<open>calendar.js\<close> and in \<open>v5.js\<close>. With a stored range, \<open>cancelLastRange\<close> of
  \<open>calendar.js\<close> removes the last range of the sequence, deletes the discount entry at
  every timestamp \<open>start + n * 86400000\<close> that is not above the end of that range, and
  leaves every other discount entry, the excluded dates, the blocked dates and the month
  prices as they were. \<open>cancelLastRange\<close> of \<open>v5.js\<close> removes the last range as well but
  leaves all discount entries as they were.
\<close>

theorem cancelLastRange_effect:
  "(dateRanges st = [] \<longrightarrow> cancelLastRange st = st \<and> cancelLastRange_v5 st = st) \<and>
   (dateRanges st \<noteq> [] \<longrightarrow>
      dateRanges (cancelLastRange st) = butlast (dateRanges st) \<and>
      (\<forall>k. dateDiscounts (cancelLastRange st) k =
           (if (\<exists>n::nat. k = timestamp (range_start (last (dateRanges st))) + int n * 86400000 \<and>
                          k \<le> timestamp (range_end (last (dateRanges st))))
            then None else dateDiscounts st k)) \<and>
      excludedDates (cancelLastRange st) = excludedDates st \<and>
      blockedDates (cancelLastRange st) = blockedDates st \<and>
      basePrices (cancelLastRange st) = basePrices st \<and>
      dateRanges (cancelLastRange_v5 st) = butlast (dateRanges st) \<and>
      dateDiscounts (cancelLastRange_v5 st) = dateDiscounts st)"
  by (simp add: cancelLastRange_def cancelLastRange_v5_def Let_def deleteDiscounts_eq)

theorem cancelLastRange_effect_witness:
  "dateRanges (newManager (2026, 11)) = [] \<and>
   cancelLastRange (newManager (2026, 11)) = newManager (2026, 11) \<and>
   dateRanges nov2026 \<noteq> [] \<and>
   dateRanges (cancelLastRange nov2026) = [] \<and>
   dateDiscounts (cancelLastRange nov2026) (timestamp (mkDate 12 11 2026)) = None \<and>
   dateDiscounts (cancelLastRange nov2026) (timestamp (mkDate 20 11 2026)) = Some 270"
proof -
  have e: "dateRanges (newManager (2026, 11)) = []" by (simp add: newManager_def)
  with cancelLastRange_effect [of "newManager (2026, 11)"]
  have a: "cancelLastRange (newManager (2026, 11)) = newManager (2026, 11)" by blast
  have ne: "dateRanges nov2026 \<noteq> []" by (simp add: nov2026_def)
  have s: "timestamp (range_start (last (dateRanges nov2026))) = 1794268800000"
    and t: "timestamp (range_end (last (dateRanges nov2026))) = 1794700800000"
    and t12: "timestamp (mkDate 12 11 2026) = 1794268800000 + int 2 * 86400000"
    and t20: "timestamp (mkDate 20 11 2026) = 1795132800000"
    and d20: "dateDiscounts nov2026 (timestamp (mkDate 20 11 2026)) = Some 270"
    and bl: "butlast (dateRanges nov2026) = []"
    by code_simp+
  from cancelLastRange_effect [of nov2026] ne
  have R: "dateRanges (cancelLastRange nov2026) = butlast (dateRanges nov2026)"
    and D: "\<And>k. dateDiscounts (cancelLastRange nov2026) k =
           (if (\<exists>n::nat. k = timestamp (range_start (last (dateRanges nov2026))) + int n * 86400000 \<and>
                          k \<le> timestamp (range_end (last (dateRanges nov2026))))
            then None else dateDiscounts nov2026 k)"
    by blast+
  have "\<exists>n::nat. timestamp (mkDate 12 11 2026) = 1794268800000 + int n * 86400000 \<and>
                  timestamp (mkDate 12 11 2026) \<le> 1794700800000"
    using t12 by (intro exI [of _ 2]) simp
  then have c: "dateDiscounts (cancelLastRange nov2026) (timestamp (mkDate 12 11 2026)) = None"
    using D [of "timestamp (mkDate 12 11 2026)"] by (simp only: s t if_True)
  have "\<not> (\<exists>n::nat. timestamp (mkDate 20 11 2026) = 1794268800000 + int n * 86400000 \<and>
                  timestamp (mkDate 20 11 2026) \<le> 1794700800000)"
    using t20 by simp
  then have d: "dateDiscounts (cancelLastRange nov2026) (timestamp (mkDate 20 11 2026)) = Some 270"
    using D [of "timestamp (mkDate 20 11 2026)"] d20 by (simp only: s t if_False)
  from e a ne R bl c d show ?thesis by simp
qed

text \<open>The claim as it is written fails in \<open>v5.js\<close>: the discount of the 12th, two steps
  of 24 hours after the start of the cancelled range, is still there.\<close>

theorem cancelLastRange_v5_counterexample:
  "dateRanges nov2026 \<noteq> [] \<and>
   timestamp (range_start (last (dateRanges nov2026))) + 2 * 86400000 =
     timestamp (mkDate 12 11 2026) \<and>
   timestamp (mkDate 12 11 2026) \<le> timestamp (range_end (last (dateRanges nov2026))) \<and>
   dateDiscounts (cancelLastRange_v5 nov2026) (timestamp (mkDate 12 11 2026)) = Some 270"
  by code_simp

section \<open>Excluding a day of a range\<close>

text \<open>\<open>excludeDay\<close> for a date with a timestamp other than 0: the timestamp joins the
  excluded dates and the ranges stay as they are; the discount entry of the date is
  deleted unless its value is 0.\<close>

lemma excludeDay_effect:
  assumes "timestamp fd \<noteq> 0"
  shows "timestamp fd \<in> excludedDates (excludeDay st c fd d mn y) \<and>
         dateRanges (excludeDay st c fd d mn y) = dateRanges st \<and>
         (dateDiscounts st (timestamp fd) \<noteq> Some 0 \<longrightarrow>
            dateDiscounts (excludeDay st c fd d mn y) (timestamp fd) = None) \<and>
         (dateDiscounts st (timestamp fd) = Some 0 \<longrightarrow>
            dateDiscounts (excludeDay st c fd d mn y) (timestamp fd) = Some 0)"
  using assms
  by (auto simp: excludeDay_def Let_def split: option.splits)

text \<open>
  C3 says that a click on a day inside a confirmed range, not yet excluded, adds the
  timestamp of the day to the excluded dates and deletes any discount entry for it. The
  code deletes the entry under \<open>if (this.calendarData.dateDiscounts[fullDate.timestamp])\<close>,
  which is false for the value 0. In \<open>nov2026_full\<close> the range 10 to 15 November carries
  a discount of 100 percent, so the entry of the 12th is 0. After the click on the 12th
  the day is excluded and the entry is still there; after a further click, which takes
  the day out of the excluded dates again, the cell of the 12th shows the price 0.
\<close>

theorem excludeDay_keeps_zero_discount:
  "isRangeConfirmed nov2026_full \<and>
   isDateInRanges nov2026_full (createFullDate 12 ''November'' 2026) \<and>
   \<not> isDateExcluded nov2026_full (timestamp (mkDate 12 11 2026)) \<and>
   dateDiscounts nov2026_full (timestamp (mkDate 12 11 2026)) = Some 0 \<and>
   timestamp (mkDate 12 11 2026) \<in>
     excludedDates (handleDayClick nov2026_full (Some 250) False False 12 ''November'' 2026) \<and>
   dateDiscounts (handleDayClick nov2026_full (Some 250) False False 12 ''November'' 2026)
     (timestamp (mkDate 12 11 2026)) = Some 0 \<and>
   map_option service_price
     (updateDayDisplay
        (handleDayClick
           (handleDayClick nov2026_full (Some 250) False False 12 ''November'' 2026)
           (Some 250) False False 12 ''November'' 2026)
        (Some 250) ''November'' 2026 12) = Some 0"
  by code_simp

section \<open>The second click of a range pick\<close>

lemma handleDayClick_v5_rejects:
  assumes "\<not> isRangeConfirmed st" and "MONTH_MAP monthName = Some m"
    and "\<not> isDateBlocked st (formatDate d m yearNum) (yearNum, m)"
  shows "(startMonth st \<noteq> Some monthName \<or> startYear st \<noteq> Some yearNum \<longrightarrow>
            handleDayClick_v5 st d monthName yearNum = st\<lparr>isRangeConfirmed := True\<rparr>) \<and>
         (startMonth st = Some monthName \<and> startYear st = Some yearNum \<and> startDay st = Some s \<and>
          isRangeOverlap st (timestamp (mkDate (min s d) m yearNum))
                            (timestamp (mkDate (max s d) m yearNum)) \<longrightarrow>
            handleDayClick_v5 st d monthName yearNum = st\<lparr>isRangeConfirmed := True\<rparr>)"
  using assms
  by (auto simp: handleDayClick_v5_def createFullDate_def mkDate_def Let_def)

lemma completeRangeSelection_appends:
  assumes "timestamp endDate \<noteq> 0" and "\<not> startFalsy st"
    and "selectionStartDate st = Some startDate"
  shows "dateRanges (completeRangeSelection st (Some endDate)) =
           dateRanges st @ [if timestamp startDate > timestamp endDate
                            then \<lparr>range_start = endDate, range_end = startDate\<rparr>
                            else \<lparr>range_start = startDate, range_end = endDate\<rparr>] \<and>
         \<not> isRangeConfirmed (completeRangeSelection st (Some endDate)) \<and>
         startDay (completeRangeSelection st (Some endDate)) = None \<and>
         startMonth (completeRangeSelection st (Some endDate)) = None \<and>
         startYear (completeRangeSelection st (Some endDate)) = None"
  using assms
  by (simp add: completeRangeSelection_def Let_def)

text \<open>
  C7, as the code has it. In \<open>v5.js\<close>, when the second click of a pick (on a day that is
  not blocked) lands in another month or year than the recorded start, or the candidate
  range overlaps a stored range according to \<open>isRangeOverlap\<close>, \<open>handleDayClick\<close> changes
  nothing but \<open>isRangeConfirmed\<close>, which becomes true: no range is appended, and the
  recorded start day, month and year stay as they were. In \<open>new_calendar.js\<close>,
  \<open>completeRangeSelection\<close> does not reject: for a clicked date with a timestamp other
  than 0 and a recorded start it appends the range, ordered by timestamp, whether or not
  it overlaps a stored range or spans two months, sets \<open>isRangeConfirmed\<close> to false and
  clears the recorded start.
\<close>

theorem second_click_amended:
  "(\<not> isRangeConfirmed st \<and> MONTH_MAP monthName = Some m \<and>
    \<not> isDateBlocked st (formatDate d m yearNum) (yearNum, m) \<and>
    (startMonth st \<noteq> Some monthName \<or> startYear st \<noteq> Some yearNum \<or>
     (startDay st = Some s \<and>
      isRangeOverlap st (timestamp (mkDate (min s d) m yearNum))
                        (timestamp (mkDate (max s d) m yearNum)))) \<longrightarrow>
      handleDayClick_v5 st d monthName yearNum = st\<lparr>isRangeConfirmed := True\<rparr>) \<and>
   (timestamp endDate \<noteq> 0 \<and> \<not> startFalsy st \<and> selectionStartDate st = Some startDate \<longrightarrow>
      dateRanges (completeRangeSelection st (Some endDate)) =
        dateRanges st @ [if timestamp startDate > timestamp endDate
                         then \<lparr>range_start = endDate, range_end = startDate\<rparr>
                         else \<lparr>range_start = startDate, range_end = endDate\<rparr>] \<and>
      \<not> isRangeConfirmed (completeRangeSelection st (Some endDate)) \<and>
      startDay (completeRangeSelection st (Some endDate)) = None \<and>
      startMonth (completeRangeSelection st (Some endDate)) = None \<and>
      startYear (completeRangeSelection st (Some endDate)) = None)"
  using handleDayClick_v5_rejects [of st monthName m d yearNum s]
        completeRangeSelection_appends [of endDate st startDate]
  by blast

text \<open>With the range 10 to 15 November stored and the 8th recorded as start, the second
  click on the 20th is rejected in \<open>v5.js\<close> and appended in \<open>new_calendar.js\<close>.\<close>

theorem second_click_amended_witness:
  "\<not> isRangeConfirmed nov2026_picking_v5 \<and>
   MONTH_MAP ''November'' = Some 11 \<and>
   \<not> isDateBlocked nov2026_picking_v5 (formatDate 20 11 2026) (2026, 11) \<and>
   startDay nov2026_picking_v5 = Some 8 \<and>
   isRangeOverlap nov2026_picking_v5 (timestamp (mkDate (min 8 20) 11 2026))
                                     (timestamp (mkDate (max 8 20) 11 2026)) \<and>
   handleDayClick_v5 nov2026_picking_v5 20 ''November'' 2026 =
     nov2026_picking_v5\<lparr>isRangeConfirmed := True\<rparr> \<and>
   timestamp (mkDate 20 11 2026) \<noteq> 0 \<and>
   \<not> startFalsy nov2026_picking \<and>
   selectionStartDate nov2026_picking = Some (mkDate 8 11 2026) \<and>
   length (dateRanges (completeRangeSelection nov2026_picking (Some (mkDate 20 11 2026)))) = 2"
proof -
  have h: "\<not> isRangeConfirmed nov2026_picking_v5"
          "MONTH_MAP ''November'' = Some 11"
          "\<not> isDateBlocked nov2026_picking_v5 (formatDate 20 11 2026) (2026, 11)"
          "startDay nov2026_picking_v5 = Some 8"
          "isRangeOverlap nov2026_picking_v5 (timestamp (mkDate (min 8 20) 11 2026))
                                            (timestamp (mkDate (max 8 20) 11 2026))"
    by code_simp+
  have g: "timestamp (mkDate 20 11 2026) \<noteq> 0"
          "\<not> startFalsy nov2026_picking"
          "selectionStartDate nov2026_picking = Some (mkDate 8 11 2026)"
          "length (dateRanges nov2026_picking) = 1"
    by code_simp+
  note T = second_click_amended
             [where st = nov2026_picking_v5 and monthName = "''November''" and m = 11
                and d = 20 and yearNum = 2026 and s = 8]
  have a: "handleDayClick_v5 nov2026_picking_v5 20 ''November'' 2026 =
             nov2026_picking_v5\<lparr>isRangeConfirmed := True\<rparr>"
    using conjunct1 [OF T] h by blast
  note U = second_click_amended
             [where st = nov2026_picking and endDate = "mkDate 20 11 2026"
                and startDate = "mkDate 8 11 2026"]
  have "dateRanges (completeRangeSelection nov2026_picking (Some (mkDate 20 11 2026))) =
        dateRanges nov2026_picking @
          [if timestamp (mkDate 8 11 2026) > timestamp (mkDate 20 11 2026)
           then \<lparr>range_start = mkDate 20 11 2026, range_end = mkDate 8 11 2026\<rparr>
           else \<lparr>range_start = mkDate 8 11 2026, range_end = mkDate 20 11 2026\<rparr>]"
    using conjunct2 [OF U] g(1-3) by blast
  then have b: "length (dateRanges (completeRangeSelection nov2026_picking
                   (Some (mkDate 20 11 2026)))) = 2"
    using g(4) by simp
  from h g(1-3) a b show ?thesis by blast
qed

text \<open>The claim as it is written fails: after the rejection in \<open>v5.js\<close> the recorded start
  is still the 8th, for the overlapping pick and for the pick that ends in December; in
  \<open>new_calendar.js\<close> both picks are appended and \<open>isRangeConfirmed\<close> is false.\<close>

theorem second_click_counterexample:
  "isRangeOverlap nov2026_picking_v5 (timestamp (mkDate 8 11 2026)) (timestamp (mkDate 20 11 2026)) \<and>
   startDay (handleDayClick_v5 nov2026_picking_v5 20 ''November'' 2026) = Some 8 \<and>
   startDay (handleDayClick_v5 nov2026_picking_v5 5 ''December'' 2026) = Some 8 \<and>
   isRangeOverlap nov2026_picking (timestamp (mkDate 8 11 2026)) (timestamp (mkDate 20 11 2026)) \<and>
   length (dateRanges nov2026_picking) = 1 \<and>
   length (dateRanges (handleDayClick nov2026_picking (Some 250) False False 20 ''November'' 2026)) = 2 \<and>
   length (dateRanges (handleDayClick nov2026_picking (Some 250) False False 5 ''December'' 2026)) = 2 \<and>
   \<not> isRangeConfirmed (handleDayClick nov2026_picking (Some 250) False False 20 ''November'' 2026)"
  by code_simp

section \<open>A weekend discount of 0 percent\<close>

lemma applyWeekendDay_frame:
  "excludedDates (applyWeekendDay y m b p d st) = excludedDates st"
  "blockedDates (applyWeekendDay y m b p d st) = blockedDates st"
  "dateRanges (applyWeekendDay y m b p d st) = dateRanges st"
  "globalDefaultCost (applyWeekendDay y m b p d st) = globalDefaultCost st"
  by (simp_all add: applyWeekendDay_def Let_def)

lemma isDateExcluded_cong:
  "excludedDates st' = excludedDates st \<Longrightarrow> isDateExcluded st' t = isDateExcluded st t"
  by (simp add: isDateExcluded_def)

lemma isDateBlocked_cong:
  "blockedDates st' = blockedDates st \<Longrightarrow> isDateBlocked st' s k = isDateBlocked st s k"
  by (simp add: isDateBlocked_def)

lemma getBlockedDatePrice_cong:
  "blockedDates st' = blockedDates st \<Longrightarrow> getBlockedDatePrice st' s k = getBlockedDatePrice st s k"
  by (simp add: getBlockedDatePrice_def)

lemma getBasePrice_cong:
  "globalDefaultCost st' = globalDefaultCost st \<Longrightarrow> getBasePrice st' c = getBasePrice st c"
  by (simp add: getBasePrice_def split: option.splits)

lemma applyWeekendDay_discounts:
  "dateDiscounts (applyWeekendDay y m b p d st) k =
     (if (getDay (newDate y (m - 1) d) = 0 \<or> getDay (newDate y (m - 1) d) = 6) \<and>
         \<not> isDateExcluded st (newDate y (m - 1) d) \<and>
         \<not> isDateBlocked st (formatDate d m y) (y, m) \<and>
         k = newDate y (m - 1) d
      then Some p else dateDiscounts st k)"
  by (simp add: applyWeekendDay_def Let_def)

lemma fold_applyWeekendDay_frame:
  "excludedDates (fold (applyWeekendDay y m b p) ds st) = excludedDates st \<and>
   blockedDates (fold (applyWeekendDay y m b p) ds st) = blockedDates st \<and>
   dateRanges (fold (applyWeekendDay y m b p) ds st) = dateRanges st \<and>
   globalDefaultCost (fold (applyWeekendDay y m b p) ds st) = globalDefaultCost st"
  by (induction ds arbitrary: st) (simp_all add: applyWeekendDay_frame)

lemma fold_applyWeekendDay_discounts:
  "dateDiscounts (fold (applyWeekendDay y m b p) ds st) k =
     (if \<exists>d \<in> set ds.
           (getDay (newDate y (m - 1) d) = 0 \<or> getDay (newDate y (m - 1) d) = 6) \<and>
           \<not> isDateExcluded st (newDate y (m - 1) d) \<and>
           \<not> isDateBlocked st (formatDate d m y) (y, m) \<and>
           k = newDate y (m - 1) d
      then Some p else dateDiscounts st k)"
proof (induction ds arbitrary: st)
  case Nil
  show ?case by simp
next
  case (Cons d ds)
  let ?st1 = "applyWeekendDay y m b p d st"
  have e: "\<And>t. isDateExcluded ?st1 t = isDateExcluded st t"
    by (rule isDateExcluded_cong) (simp add: applyWeekendDay_frame)
  have bl: "\<And>s k. isDateBlocked ?st1 s k = isDateBlocked st s k"
    by (rule isDateBlocked_cong) (simp add: applyWeekendDay_frame)
  show ?case
    by (simp add: Cons.IH [of ?st1] e bl applyWeekendDay_discounts) blast
qed

text \<open>
  C10: \<open>applyWeekendDiscount\<close> with the percent 0 stores a discount entry, equal to the
  base price, for every Saturday and Sunday of the current month that is neither
  excluded nor blocked. The cell of such a day is then marked active and shows the base
  price. The mark does not depend on the percent: with any discount argument the cell is
  active and shows the value \<open>applyDiscount\<close> returns for it.
\<close>

theorem applyWeekendDiscount_zero_percent:
  assumes key: "currentMonthKey st = (y, m)"
    and month: "MONTH_MAP mn = Some m"
    and day: "1 \<le> d" "d \<le> daysInMonth y m"
    and weekend: "getDay (newDate y (m - 1) d) = 0 \<or> getDay (newDate y (m - 1) d) = 6"
    and free: "\<not> isDateExcluded st (newDate y (m - 1) d)"
              "\<not> isDateBlocked st (formatDate d m y) (y, m)"
  shows "dateDiscounts (applyWeekendDiscount st c (DNum 0)) (newDate y (m - 1) d)
           = Some (getBasePrice st c) \<and>
         (case updateDayDisplay (applyWeekendDiscount st c (DNum 0)) c mn y d of
            None \<Rightarrow> False
          | Some cell \<Rightarrow> is_active cell \<and> \<not> is_blocked cell \<and>
                         service_price cell = getBasePrice st c) \<and>
         (case updateDayDisplay (applyWeekendDiscount st c arg) c mn y d of
            None \<Rightarrow> False
          | Some cell \<Rightarrow> is_active cell \<and> \<not> is_blocked cell \<and>
                         service_price cell = applyDiscount (getBasePrice st c) arg)"
proof -
  have zero: "applyDiscount (getBasePrice st c) (DNum 0) = getBasePrice st c"
    by (simp add: applyDiscount_def checkDiscount_def Math_round_def)
  have mem: "d \<in> set [1..daysInMonth y m]" using day by simp
  have disc: "\<And>a. dateDiscounts (applyWeekendDiscount st c a) (newDate y (m - 1) d)
                 = Some (applyDiscount (getBasePrice st c) a)"
    using key mem weekend free
    by (auto simp: applyWeekendDiscount_def Let_def fold_applyWeekendDay_discounts)
  have fr: "\<And>a. excludedDates (applyWeekendDiscount st c a) = excludedDates st \<and>
                blockedDates (applyWeekendDiscount st c a) = blockedDates st \<and>
                globalDefaultCost (applyWeekendDiscount st c a) = globalDefaultCost st"
    by (simp add: applyWeekendDiscount_def Let_def fold_applyWeekendDay_frame)
  have cell: "\<And>a. case updateDayDisplay (applyWeekendDiscount st c a) c mn y d of
            None \<Rightarrow> False
          | Some cell \<Rightarrow> is_active cell \<and> \<not> is_blocked cell \<and>
                         service_price cell = applyDiscount (getBasePrice st c) a"
    using month free disc
    by (simp add: updateDayDisplay_def createFullDate_def Let_def
          isDateExcluded_cong [OF conjunct1 [OF fr]]
          isDateBlocked_cong [OF conjunct1 [OF conjunct2 [OF fr]]])
  from disc [of "DNum 0"] cell [of "DNum 0"] cell [of arg] show ?thesis
    unfolding zero by blast
qed

text \<open>The 7th of November 2026 is a Saturday.\<close>

theorem applyWeekendDiscount_zero_percent_witness:
  "currentMonthKey (newManager (2026, 11)) = (2026, 11) \<and>
   MONTH_MAP ''November'' = Some 11 \<and>
   7 \<le> daysInMonth 2026 11 \<and>
   getDay (newDate 2026 (11 - 1) 7) = 6 \<and>
   \<not> isDateExcluded (newManager (2026, 11)) (newDate 2026 (11 - 1) 7) \<and>
   \<not> isDateBlocked (newManager (2026, 11)) (formatDate 7 11 2026) (2026, 11) \<and>
   dateDiscounts (applyWeekendDiscount (newManager (2026, 11)) (Some 300) (DNum 0))
     (newDate 2026 (11 - 1) 7) = Some 300"
proof -
  have h: "currentMonthKey (newManager (2026, 11)) = (2026, 11)"
          "MONTH_MAP ''November'' = Some 11"
          "(1::int) \<le> 7"
          "7 \<le> daysInMonth 2026 11"
          "getDay (newDate 2026 (11 - 1) 7) = 0 \<or> getDay (newDate 2026 (11 - 1) 7) = 6"
          "\<not> isDateExcluded (newManager (2026, 11)) (newDate 2026 (11 - 1) 7)"
          "\<not> isDateBlocked (newManager (2026, 11)) (formatDate 7 11 2026) (2026, 11)"
    by code_simp+
  have g: "getDay (newDate 2026 (11 - 1) 7) = 6"
          "getBasePrice (newManager (2026, 11)) (Some 300) = 300"
    by code_simp+
  from applyWeekendDiscount_zero_percent [OF h, where c = "Some 300" and arg = "DNum 0"]
  have "dateDiscounts (applyWeekendDiscount (newManager (2026, 11)) (Some 300) (DNum 0))
          (newDate 2026 (11 - 1) 7) = Some (getBasePrice (newManager (2026, 11)) (Some 300))"
    by blast
  with h g show ?thesis by simp
qed

section \<open>The order of the ends of a range\<close>




















section \<open>Base prices for all days of a month\<close>










lemma formatDate_nonempty: "1 \<le> d \<Longrightarrow> m \<noteq> 0 \<Longrightarrow> y \<noteq> 0 \<Longrightarrow> formatDate d m y \<noteq> []"
  by (simp add: formatDate_def)















end
